theory Spec2Isabelle
  imports Main
begin

section \<open>Collaborators outside the repository\<close>

text \<open>
  The SDK is a set of thin wrappers around a signed-HTTP session. What the wrappers
  call but do not define (net/http, net/url, encoding/json, the session) is data here:
  an HTTP request is the method, the URL string and the headers it was built from; a
  response is its status code and the outcome of reading its body.
\<close>

record request =
  Method :: string
  URL :: string
  Header :: "(string \<times> string) list"

datatype body = ReadError string | Bytes string

record response =
  respStatusCode :: int
  respBody :: body

subsection \<open>Decimal and JSON text\<close>

text \<open>The verb \<open>%d\<close> of fmt and strconv.Itoa: an integer in decimal.\<close>

definition digit :: "nat \<Rightarrow> char" where
  "digit n = ''0123456789'' ! (n mod 10)"

fun digits :: "nat \<Rightarrow> string" where
  "digits n = (if n < 10 then [digit n] else digits (n div 10) @ [digit n])"

definition Itoa :: "int \<Rightarrow> string" where
  "Itoa i = (if i < 0 then CHR ''-'' # digits (nat (- i)) else digits (nat i))"







text \<open>strings.Join.\<close>

fun join :: "string \<Rightarrow> string list \<Rightarrow> string" where
  "join sep [] = []"
| "join sep [x] = x"
| "join sep (x # y # ys) = x @ sep @ join sep (y # ys)"

subsection \<open>fmt.Sprintf\<close>

text \<open>
  The formats of these sources pair \<open>%s\<close> with a string and \<open>%d\<close> with an integer.
  For any other pairing fmt prints a marker instead of failing; the markers are written
  here without the Go type name of the operand, and no source line reaches them.
\<close>

datatype arg = S string | D int

definition plain :: "arg \<Rightarrow> string" where
  "plain a = (case a of S s \<Rightarrow> s | D i \<Rightarrow> Itoa i)"

definition verb :: "char \<Rightarrow> arg \<Rightarrow> string" where
  "verb v a =
     (case a of
        S s \<Rightarrow> if v = CHR ''s'' \<or> v = CHR ''v'' then s else ''%!'' @ [v] @ ''('' @ s @ '')''
      | D i \<Rightarrow> if v = CHR ''d'' \<or> v = CHR ''v'' then Itoa i else ''%!'' @ [v] @ ''('' @ Itoa i @ '')'')"

fun Sprintf :: "string \<Rightarrow> arg list \<Rightarrow> string" where
  "Sprintf [] as = (if as = [] then [] else ''%!(EXTRA '' @ join '', '' (map plain as) @ '')'')"
| "Sprintf [c] as = (if c = CHR ''%'' then ''%!(NOVERB)'' else [c]) @ Sprintf [] as"
| "Sprintf (c # d # cs) as =
     (if c = CHR ''%'' then
        (if d = CHR ''%'' then CHR ''%'' # Sprintf cs as
         else case as of
                [] \<Rightarrow> ''%!'' @ [d] @ ''(MISSING)'' @ Sprintf cs []
              | a # as' \<Rightarrow> verb d a @ Sprintf cs as')
      else c # Sprintf (d # cs) as)"

section \<open>Errors\<close>

subsection \<open>The typed API error of package gtm\<close>

record Error =
  Type :: string
  Title :: string
  Detail :: string
  Instance :: string
  BehaviorName :: string
  ErrorLocation :: string
  StatusCode :: int

text \<open>The zero value that \<open>var e Error\<close> declares.\<close>

definition Error_zero :: Error where
  "Error_zero = \<lparr>Type = [], Title = [], Detail = [], Instance = [], BehaviorName = [],
     ErrorLocation = [], StatusCode = 0\<rparr>"





subsection \<open>Error values and their chains\<close>

text \<open>
  The errors of github.com/go-ozzo/ozzo-validation: the message of one failed rule, or
  the \<open>validation.Errors\<close> map from keys to errors (an association list here, with the
  keys in the order of the map literal).
\<close>

datatype verr = ErrorObject string | Errors "(string \<times> verr) list"

text \<open>
  A package-level \<open>errors.New\<close> variable is identified by the variable, not by its text:
  two sentinels with the same text are different errors. The sentinels of edgeworkers,
  cloudlets and papi named \<open>ErrStructValidation\<close>, \<open>session.ErrNotFound\<close> and
  \<open>tools.ErrInvalidLocation\<close> are declared outside the files at hand; only their
  identity is used.
\<close>

datatype sentinel =
    gtm_ErrBadRequest
  | gtm_ErrNotFound
  | edgeworkers_ErrStructValidation
  | edgeworkers_ErrListDeactivations
  | edgeworkers_ErrDeactivateVersion
  | edgeworkers_ErrGetDeactivation
  | cloudlets_ErrStructValidation
  | cloudlets_ErrGetPolicyProperties
  | cloudlets_ErrDeletePolicyProperty
  | papi_ErrStructValidation
  | session_ErrNotFound
  | tools_ErrInvalidLocation
  | datastream_ErrStructValidation
  | networklists_ErrStructValidation
  | cps_ErrStructValidation

text \<open>
  An error made by \<open>fmt.Errorf\<close> is kept as the call that made it: the format and its
  operands. An operand is a string or integer (\<open>A\<close>), an error value under \<open>%s\<close>, \<open>%v\<close> or
  \<open>%w\<close> (\<open>V\<close>), or the text \<open>err.Error()\<close> of an error (\<open>M\<close>). \<open>External\<close> is an
  error made by a collaborator (transport, net/http, net/url), with its message.
\<close>

datatype operand = A arg | V goerr | M goerr
and goerr =
    New sentinel
  | Errorf string "operand list"
  | APIError Error
  | Invalid verr
  | External string











section \<open>What the operations are given\<close>

subsection \<open>Standard library and declarations outside the files at hand\<close>

text \<open>
  The operations call functions whose code is not part of the repository's files at
  hand. Each is a field of \<open>env\<close>, so that every theorem holds whatever they compute:
  \<^item> \<open>NewRequestErr m u\<close>: the error of \<open>http.NewRequestWithContext(ctx, m, u, nil)\<close>, if
    any (a nil context, a URL that does not parse);
  \<^item> \<open>ParseErr u\<close>: the error of \<open>url.Parse(u)\<close>, if any; \<open>QueryEscape\<close> of net/url;
  \<^item> \<open>Unmarshal b e\<close>: \<open>json.Unmarshal(b, &e)\<close>, the struct afterwards and the message
    of the error, if any;
  \<^item> \<open>versionHeader m\<close>: the header lines that gtm's \<open>setVersionHeader(req, schemaVersion)\<close>
    sets on a request of method \<open>m\<close>;
  \<^item> the two \<open>ActivationNetwork\<close> constants of edgeworkers;
  \<^item> the error mappers of edgeworkers and cloudlets (their \<open>Error\<close> methods) and
    \<open>session.NewAPIError\<close>;
  \<^item> \<open>tools.FetchIDFromLocation\<close> of papi.
  Logging (\<open>p.Log(ctx)\<close>) writes to a logger only and is left out.
\<close>

record env =
  NewRequestErr :: "string \<Rightarrow> string \<Rightarrow> goerr option"
  ParseErr :: "string \<Rightarrow> goerr option"
  QueryEscape :: "string \<Rightarrow> string"
  Unmarshal :: "string \<Rightarrow> Error \<Rightarrow> Error \<times> string option"
  versionHeader :: "string \<Rightarrow> (string \<times> string) list"
  ActivationNetworkStaging :: string
  ActivationNetworkProduction :: string
  edgeworkers_Error :: "response \<Rightarrow> goerr"
  cloudlets_Error :: "response \<Rightarrow> goerr"
  NewAPIError :: "response \<Rightarrow> goerr"
  FetchIDFromLocation :: "string \<Rightarrow> goerr + string"

definition NewRequestWithContext :: "env \<Rightarrow> string \<Rightarrow> string \<Rightarrow> goerr + request" where
  "NewRequestWithContext x m u =
     (case NewRequestErr x m u of
        Some err \<Rightarrow> Inl err
      | None \<Rightarrow> Inr \<lparr>Method = m, URL = u, Header = []\<rparr>)"

text \<open>
  The strings given to \<open>url.Parse\<close> in these sources are a fixed path with decimal
  integers in it: no query, no fragment, no escape. The parsed URL is then that path
  with an empty query, and \<open>String()\<close> writes the path, and the query behind a question
  mark when it is not empty. A query holds one key at most here, so \<open>Encode\<close>, which
  sorts by key, writes the pairs in their order.
\<close>

record url =
  Path :: string
  RawQuery :: string

definition url_Parse :: "env \<Rightarrow> string \<Rightarrow> goerr + url" where
  "url_Parse x u =
     (case ParseErr x u of
        Some err \<Rightarrow> Inl err
      | None \<Rightarrow> Inr \<lparr>Path = u, RawQuery = []\<rparr>)"

definition url_String :: "url \<Rightarrow> string" where
  "url_String u = Path u @ (if RawQuery u = [] then [] else ''?'' @ RawQuery u)"

definition Encode :: "env \<Rightarrow> (string \<times> string) list \<Rightarrow> string" where
  "Encode x q = join ''&'' (map (\<lambda>(k, v). QueryEscape x k @ ''='' @ QueryEscape x v) q)"

text \<open>\<open>req.Header.Set(k, v)\<close>; the key is kept as the source spells it.\<close>

definition Header_Set :: "string \<Rightarrow> string \<Rightarrow> request \<Rightarrow> request" where
  "Header_Set k v req = req\<lparr>Header := (k, v) # filter (\<lambda>kv. fst kv \<noteq> k) (Header req)\<rparr>"

subsection \<open>The session, and what an operation leaves behind\<close>

text \<open>
  \<open>Exec(req, &target, in...)\<close> of the session: given the request (a pointer, so possibly
  nil), the value of the target before the call and the request body operands, it
  answers a transport error or the response, and the value of the target afterwards.
  An operation is a method on a pointer to its client, so it is given the client and
  answers the client afterwards (\<open>receiver\<close>), the calls of \<open>Exec\<close> it made in order
  (\<open>dispatched\<close>) and what it returns: \<open>Inl\<close> is a nil result with an error, \<open>Inr\<close> a result
  with a nil error.
\<close>

record ('b, 'a) session =
  Exec :: "request option \<Rightarrow> 'a \<Rightarrow> 'b list \<Rightarrow> (goerr + response) \<times> 'a"

record ('p, 'b, 'r) outcome =
  receiver :: 'p
  dispatched :: "(request option \<times> 'b list) list"
  returned :: "goerr + 'r"

section \<open>Validation rules (ozzo-validation)\<close>

text \<open>
  \<open>validation.Validate(value, rules...)\<close> applies the rules in order and returns the
  first error. \<open>Required\<close> fails on an empty value (the empty string, the integer 0);
  \<open>In\<close> accepts an empty value and otherwise wants a member of its list; \<open>When\<close> applies
  its rules under a condition. \<open>Errors{...}.Filter()\<close> drops the keys whose error is
  nil and is nil itself when no key is left.
\<close>

type_synonym 'a rule = "'a \<Rightarrow> verr option"

definition IsEmpty_string :: "string \<Rightarrow> bool" where
  "IsEmpty_string s = (length s = 0)"

definition IsEmpty_int :: "int \<Rightarrow> bool" where
  "IsEmpty_int i = (i = 0)"

definition ErrRequired :: verr where
  "ErrRequired = ErrorObject ''cannot be blank''"

definition Required :: "('a \<Rightarrow> bool) \<Rightarrow> 'a rule" where
  "Required isEmpty v = (if isEmpty v then Some ErrRequired else None)"

definition Required_When :: "('a \<Rightarrow> bool) \<Rightarrow> bool \<Rightarrow> 'a rule" where
  "Required_When isEmpty c v = (if c then Required isEmpty v else None)"

definition In_Error :: "('a \<Rightarrow> bool) \<Rightarrow> 'a list \<Rightarrow> string \<Rightarrow> 'a rule" where
  "In_Error isEmpty elems msg v =
     (if isEmpty v then None
      else if v \<in> set elems then None
      else Some (ErrorObject msg))"

definition In :: "('a \<Rightarrow> bool) \<Rightarrow> 'a list \<Rightarrow> 'a rule" where
  "In isEmpty elems = In_Error isEmpty elems ''must be a valid value''"

fun validation_Validate :: "'a \<Rightarrow> 'a rule list \<Rightarrow> verr option" where
  "validation_Validate v [] = None"
| "validation_Validate v (r # rs) =
     (case r v of Some err \<Rightarrow> Some err | None \<Rightarrow> validation_Validate v rs)"

definition When :: "bool \<Rightarrow> 'a rule list \<Rightarrow> 'a rule" where
  "When c rules v = (if c then validation_Validate v rules else None)"

definition Filter :: "(string \<times> verr option) list \<Rightarrow> verr option" where
  "Filter es =
     (case List.map_filter (\<lambda>(k, e). map_option (Pair k) e) es of
        [] \<Rightarrow> None
      | kvs \<Rightarrow> Some (Errors kvs))"

text \<open>A slice of validatable elements: the errors of the elements under their indices.\<close>

definition validateSlice :: "'a rule \<Rightarrow> 'a list \<Rightarrow> verr option" where
  "validateSlice f xs =
     (case List.map_filter (\<lambda>(i, v). map_option (Pair (Itoa (int i))) (f v)) (enumerate 0 xs) of
        [] \<Rightarrow> None
      | kvs \<Rightarrow> Some (Errors kvs))"

section \<open>Package gtm\<close>

subsection \<open>The error mapper (gtm/errors.go)\<close>

definition gtm_Error :: "env \<Rightarrow> response \<Rightarrow> Error" where
  "gtm_Error x r =
     (case respBody r of
        ReadError msg \<Rightarrow>
          Error_zero\<lparr>StatusCode := respStatusCode r,
                      Title := ''Failed to read error body'',
                      Detail := msg\<rparr>
      | Bytes b \<Rightarrow>
          (case Unmarshal x b Error_zero of
             (e, Some msg) \<Rightarrow>
               e\<lparr>Title := ''Failed to unmarshal error body'',
                  Detail := msg,
                  StatusCode := respStatusCode r\<rparr>
           | (e, None) \<Rightarrow> e\<lparr>StatusCode := respStatusCode r\<rparr>))"

subsection \<open>CIDR maps (gtm/cidrmap.go)\<close>

text \<open>
  \<open>DatacenterBase\<close>, \<open>Link\<close>, \<open>ResponseStatus\<close>, \<open>CidrMapResponse\<close> and \<open>ResponseBody\<close>
  are declared in other files of the package. \<open>DatacenterBase\<close> has the two fields
  that \<open>NewCidrAssignment\<close> assigns; of the two response types only the field \<open>Status\<close>
  is read. The client struct \<open>gtm\<close> embeds the session.
\<close>

record DatacenterBase =
  Nickname :: string
  DatacenterId :: int

typedecl Link

typedecl ResponseStatus

record CidrAssignment = DatacenterBase +
  Blocks :: "string list"

record CidrMap =
  DefaultDatacenter :: "DatacenterBase option"
  Assignments :: "CidrAssignment list"
  Name :: string
  Links :: "Link list"

record CidrMapList =
  CidrMapItems :: "CidrMap list"

record CidrMapResponse =
  Resource :: "CidrMap option"
  Status :: "ResponseStatus option"

record ResponseBody =
  Status :: "ResponseStatus option"

record 's gtm =
  Session :: 's

definition setVersionHeader :: "env \<Rightarrow> request \<Rightarrow> request" where
  "setVersionHeader x req = req\<lparr>Header := Header req @ versionHeader x (Method req)\<rparr>"

definition CidrMap_Validate :: "CidrMap \<Rightarrow> goerr option" where
  "CidrMap_Validate cidr =
     (if length (Name cidr) < 1 then Some (Errorf ''CidrMap is missing Name'' [])
      else if DefaultDatacenter cidr = None
        then Some (Errorf ''CidrMap is missing DefaultDatacenter'' [])
      else None)"

definition NewCidrMap :: "'s gtm \<Rightarrow> string \<Rightarrow> 's gtm \<times> CidrMap" where
  "NewCidrMap p name =
     (p, \<lparr>DefaultDatacenter = None, Assignments = [], Name = name, Links = []\<rparr>)"

definition NewCidrAssignment :: "'s gtm \<Rightarrow> CidrMap \<Rightarrow> int \<Rightarrow> string \<Rightarrow> 's gtm \<times> CidrAssignment" where
  "NewCidrAssignment p m dcid nickname =
     (p, \<lparr>Nickname = nickname, DatacenterId = dcid, Blocks = []\<rparr>)"

definition ListCidrMaps ::
  "env \<Rightarrow> (unit, CidrMapList) session gtm \<Rightarrow> string
     \<Rightarrow> ((unit, CidrMapList) session gtm, unit, CidrMap list) outcome" where
  "ListCidrMaps x p domainName =
     (let getURL = Sprintf ''/config-gtm/v1/domains/%s/cidr-maps'' [S domainName] in
      case NewRequestWithContext x ''GET'' getURL of
        Inl err \<Rightarrow>
          \<lparr>receiver = p, dispatched = [],
           returned = Inl (Errorf ''failed to create ListCidrMaps request: %w'' [V err])\<rparr>
      | Inr req0 \<Rightarrow>
          (let req = setVersionHeader x req0 in
           case Exec (Session p) (Some req) \<lparr>CidrMapItems = []\<rparr> [] of
             (Inl err, cidrs) \<Rightarrow>
               \<lparr>receiver = p, dispatched = [(Some req, [])],
                returned = Inl (Errorf ''ListCidrMaps request failed: %w'' [V err])\<rparr>
           | (Inr resp, cidrs) \<Rightarrow>
               if respStatusCode resp \<noteq> 200
               then \<lparr>receiver = p, dispatched = [(Some req, [])],
                     returned = Inl (APIError (gtm_Error x resp))\<rparr>
               else \<lparr>receiver = p, dispatched = [(Some req, [])],
                     returned = Inr (CidrMapItems cidrs)\<rparr>))"

definition CidrMap_zero :: CidrMap where
  "CidrMap_zero = \<lparr>DefaultDatacenter = None, Assignments = [], Name = [], Links = []\<rparr>"

definition GetCidrMap ::
  "env \<Rightarrow> (unit, CidrMap) session gtm \<Rightarrow> string \<Rightarrow> string
     \<Rightarrow> ((unit, CidrMap) session gtm, unit, CidrMap) outcome" where
  "GetCidrMap x p name domainName =
     (let getURL = Sprintf ''/config-gtm/v1/domains/%s/cidr-maps/%s'' [S domainName, S name] in
      case NewRequestWithContext x ''GET'' getURL of
        Inl err \<Rightarrow>
          \<lparr>receiver = p, dispatched = [],
           returned = Inl (Errorf ''failed to create GetCidrMap request: %w'' [V err])\<rparr>
      | Inr req0 \<Rightarrow>
          (let req = setVersionHeader x req0 in
           case Exec (Session p) (Some req) CidrMap_zero [] of
             (Inl err, cidr) \<Rightarrow>
               \<lparr>receiver = p, dispatched = [(Some req, [])],
                returned = Inl (Errorf ''GetCidrMap request failed: %w'' [V err])\<rparr>
           | (Inr resp, cidr) \<Rightarrow>
               if respStatusCode resp \<noteq> 200
               then \<lparr>receiver = p, dispatched = [(Some req, [])],
                     returned = Inl (APIError (gtm_Error x resp))\<rparr>
               else \<lparr>receiver = p, dispatched = [(Some req, [])],
                     returned = Inr cidr\<rparr>))"

text \<open>\<open>save\<close>: the common path of create and update; the map itself is the request body.\<close>

definition save ::
  "env \<Rightarrow> (CidrMap, CidrMapResponse) session gtm \<Rightarrow> CidrMap \<Rightarrow> string
     \<Rightarrow> ((CidrMap, CidrMapResponse) session gtm, CidrMap, CidrMapResponse) outcome" where
  "save x p cidr domainName =
     (case CidrMap_Validate cidr of
        Some err \<Rightarrow>
          \<lparr>receiver = p, dispatched = [],
           returned = Inl (Errorf ''CidrMap validation failed. %w'' [V err])\<rparr>
      | None \<Rightarrow>
          (let putURL = Sprintf ''/config-gtm/v1/domains/%s/cidr-maps/%s'' [S domainName, S (Name cidr)] in
           case NewRequestWithContext x ''PUT'' putURL of
             Inl err \<Rightarrow>
               \<lparr>receiver = p, dispatched = [],
                returned = Inl (Errorf ''failed to create AsMap request: %w'' [V err])\<rparr>
           | Inr req0 \<Rightarrow>
               (let req = setVersionHeader x req0 in
                case Exec (Session p) (Some req) \<lparr>Resource = None, CidrMapResponse.Status = None\<rparr> [cidr] of
                  (Inl err, mapresp) \<Rightarrow>
                    \<lparr>receiver = p, dispatched = [(Some req, [cidr])],
                     returned = Inl (Errorf ''CidrMap request failed: %w'' [V err])\<rparr>
                | (Inr resp, mapresp) \<Rightarrow>
                    if respStatusCode resp \<noteq> 200 \<and> respStatusCode resp \<noteq> 201
                    then \<lparr>receiver = p, dispatched = [(Some req, [cidr])],
                          returned = Inl (APIError (gtm_Error x resp))\<rparr>
                    else \<lparr>receiver = p, dispatched = [(Some req, [cidr])],
                          returned = Inr mapresp\<rparr>)))"

definition CreateCidrMap ::
  "env \<Rightarrow> (CidrMap, CidrMapResponse) session gtm \<Rightarrow> CidrMap \<Rightarrow> string
     \<Rightarrow> ((CidrMap, CidrMapResponse) session gtm, CidrMap, CidrMapResponse) outcome" where
  "CreateCidrMap x p cidr domainName = save x p cidr domainName"

definition UpdateCidrMap ::
  "env \<Rightarrow> (CidrMap, CidrMapResponse) session gtm \<Rightarrow> CidrMap \<Rightarrow> string
     \<Rightarrow> ((CidrMap, CidrMapResponse) session gtm, CidrMap, ResponseStatus option) outcome" where
  "UpdateCidrMap x p cidr domainName =
     (let r = save x p cidr domainName in
      case returned r of
        Inl err \<Rightarrow> \<lparr>receiver = receiver r, dispatched = dispatched r, returned = Inl err\<rparr>
      | Inr stat \<Rightarrow>
          \<lparr>receiver = receiver r, dispatched = dispatched r,
           returned = Inr (CidrMapResponse.Status stat)\<rparr>)"

definition DeleteCidrMap ::
  "env \<Rightarrow> (unit, ResponseBody) session gtm \<Rightarrow> CidrMap \<Rightarrow> string
     \<Rightarrow> ((unit, ResponseBody) session gtm, unit, ResponseStatus option) outcome" where
  "DeleteCidrMap x p cidr domainName =
     (case CidrMap_Validate cidr of
        Some err \<Rightarrow>
          \<lparr>receiver = p, dispatched = [],
           returned = Inl (Errorf ''CidrMap validation failed. %w'' [V err])\<rparr>
      | None \<Rightarrow>
          (let delURL = Sprintf ''/config-gtm/v1/domains/%s/cidr-maps/%s'' [S domainName, S (Name cidr)] in
           case NewRequestWithContext x ''DELETE'' delURL of
             Inl err \<Rightarrow>
               \<lparr>receiver = p, dispatched = [],
                returned = Inl (Errorf ''failed to create Delete request: %w'' [V err])\<rparr>
           | Inr req0 \<Rightarrow>
               (let req = setVersionHeader x req0 in
                case Exec (Session p) (Some req) \<lparr>ResponseBody.Status = None\<rparr> [] of
                  (Inl err, mapresp) \<Rightarrow>
                    \<lparr>receiver = p, dispatched = [(Some req, [])],
                     returned = Inl (Errorf ''CidrMap request failed: %w'' [V err])\<rparr>
                | (Inr resp, mapresp) \<Rightarrow>
                    if respStatusCode resp \<noteq> 200
                    then \<lparr>receiver = p, dispatched = [(Some req, [])],
                          returned = Inl (APIError (gtm_Error x resp))\<rparr>
                    else \<lparr>receiver = p, dispatched = [(Some req, [])],
                          returned = Inr (ResponseBody.Status mapresp)\<rparr>)))"

section \<open>Package edgeworkers: deactivations\<close>

text \<open>\<open>ActivationNetwork\<close> is a string type; the client struct embeds the session.\<close>

record Deactivation =
  EdgeWorkerID :: int
  Version :: string
  DeactivationID :: int
  AccountID :: string
  Status :: string
  Network :: string
  Note :: string
  CreatedBy :: string
  CreatedTime :: string
  LastModifiedTime :: string

record EdgeWorkerListDeactivationsRequest =
  EdgeWorkerID :: int
  Version :: string

record EdgeWorkerDeactivateVersionPayload =
  Network :: string
  Note :: string
  Version :: string

record EdgeWorkerDeactivateVersionRequest =
  EdgeWorkerID :: int
  Body :: EdgeWorkerDeactivateVersionPayload

record EdgeWorkerGetDeactivationRequest =
  EdgeWorkerID :: int
  DeactivationID :: int

record EdgeWorkerListDeactivationsResponse =
  Deactivations :: "Deactivation list"

record 's edgeworkers =
  Session :: 's

definition Deactivation_zero :: Deactivation where
  "Deactivation_zero =
     \<lparr>Deactivation.EdgeWorkerID = 0, Deactivation.Version = [], Deactivation.DeactivationID = 0,
      AccountID = [], Deactivation.Status = [], Deactivation.Network = [], Deactivation.Note = [],
      CreatedBy = [], CreatedTime = [], LastModifiedTime = []\<rparr>"

definition EdgeWorkerListDeactivationsRequest_Validate ::
  "EdgeWorkerListDeactivationsRequest \<Rightarrow> verr option" where
  "EdgeWorkerListDeactivationsRequest_Validate r =
     Filter
       [(''EdgeWorkerID'',
         validation_Validate (EdgeWorkerListDeactivationsRequest.EdgeWorkerID r) [Required IsEmpty_int])]"

text \<open>The format of the message for a network outside the two constants; 0x27 is the
  apostrophe.\<close>

definition invalidNetworkFormat :: string where
  "invalidNetworkFormat =
     ''value '' @ [CHR 0x27] @ ''%s'' @ [CHR 0x27] @ '' is invalid. Must be one of: ''
     @ [CHR 0x27] @ ''%s'' @ [CHR 0x27] @ '' or '' @ [CHR 0x27] @ ''%s'' @ [CHR 0x27]"

definition EdgeWorkerDeactivateVersionRequest_Validate ::
  "env \<Rightarrow> EdgeWorkerDeactivateVersionRequest \<Rightarrow> verr option" where
  "EdgeWorkerDeactivateVersionRequest_Validate x r =
     Filter
       [(''EdgeWorkerID'',
         validation_Validate (EdgeWorkerDeactivateVersionRequest.EdgeWorkerID r) [Required IsEmpty_int]),
        (''Body.Network'',
         validation_Validate (EdgeWorkerDeactivateVersionPayload.Network (Body r))
           [Required IsEmpty_string,
            In_Error IsEmpty_string [ActivationNetworkProduction x, ActivationNetworkStaging x]
              (Sprintf invalidNetworkFormat
                 [S (EdgeWorkerDeactivateVersionPayload.Network (Body r)),
                  S (ActivationNetworkStaging x), S (ActivationNetworkProduction x)])]),
        (''Body.Version'',
         validation_Validate (EdgeWorkerDeactivateVersionPayload.Version (Body r))
           [Required IsEmpty_string])]"

definition EdgeWorkerGetDeactivationRequest_Validate ::
  "EdgeWorkerGetDeactivationRequest \<Rightarrow> verr option" where
  "EdgeWorkerGetDeactivationRequest_Validate r =
     Filter
       [(''EdgeWorkerID'',
         validation_Validate (EdgeWorkerGetDeactivationRequest.EdgeWorkerID r) [Required IsEmpty_int]),
        (''DeactivationID'',
         validation_Validate (EdgeWorkerGetDeactivationRequest.DeactivationID r) [Required IsEmpty_int])]"

definition ListDeactivations ::
  "env \<Rightarrow> (unit, EdgeWorkerListDeactivationsResponse) session edgeworkers
     \<Rightarrow> EdgeWorkerListDeactivationsRequest
     \<Rightarrow> ((unit, EdgeWorkerListDeactivationsResponse) session edgeworkers, unit,
         EdgeWorkerListDeactivationsResponse) outcome" where
  "ListDeactivations x e params =
     (case EdgeWorkerListDeactivationsRequest_Validate params of
        Some err \<Rightarrow>
          \<lparr>receiver = e, dispatched = [],
           returned = Inl (Errorf ''%s: %w: %s''
             [V (New edgeworkers_ErrListDeactivations), V (New edgeworkers_ErrStructValidation),
              M (Invalid err)])\<rparr>
      | None \<Rightarrow>
          (case url_Parse x (Sprintf ''/edgeworkers/v1/ids/%d/deactivations''
                  [D (EdgeWorkerListDeactivationsRequest.EdgeWorkerID params)]) of
             Inl err \<Rightarrow>
               \<lparr>receiver = e, dispatched = [],
                returned = Inl (Errorf ''%w: failed to parse URL: %s''
                  [V (New edgeworkers_ErrListDeactivations), M err])\<rparr>
           | Inr uri0 \<Rightarrow>
               (let q = (if EdgeWorkerListDeactivationsRequest.Version params \<noteq> []
                         then [(''version'', EdgeWorkerListDeactivationsRequest.Version params)]
                         else []);
                    uri = uri0\<lparr>RawQuery := Encode x q\<rparr> in
                case NewRequestWithContext x ''GET'' (url_String uri) of
                  Inl err \<Rightarrow>
                    \<lparr>receiver = e, dispatched = [],
                     returned = Inl (Errorf ''%w: failed to create request: %s''
                       [V (New edgeworkers_ErrListDeactivations), M err])\<rparr>
                | Inr req \<Rightarrow>
                    (case Exec (Session e) (Some req) \<lparr>Deactivations = []\<rparr> [] of
                       (Inl err, result) \<Rightarrow>
                         \<lparr>receiver = e, dispatched = [(Some req, [])],
                          returned = Inl (Errorf ''%w: request failed: %s''
                            [V (New edgeworkers_ErrListDeactivations), M err])\<rparr>
                     | (Inr resp, result) \<Rightarrow>
                         if respStatusCode resp \<noteq> 200
                         then \<lparr>receiver = e, dispatched = [(Some req, [])],
                               returned = Inl (Errorf ''%s: %w''
                                 [V (New edgeworkers_ErrListDeactivations),
                                  V (edgeworkers_Error x resp)])\<rparr>
                         else \<lparr>receiver = e, dispatched = [(Some req, [])],
                               returned = Inr result\<rparr>))))"

definition DeactivateVersion ::
  "env \<Rightarrow> (EdgeWorkerDeactivateVersionPayload, Deactivation) session edgeworkers
     \<Rightarrow> EdgeWorkerDeactivateVersionRequest
     \<Rightarrow> ((EdgeWorkerDeactivateVersionPayload, Deactivation) session edgeworkers,
         EdgeWorkerDeactivateVersionPayload, Deactivation) outcome" where
  "DeactivateVersion x e params =
     (case EdgeWorkerDeactivateVersionRequest_Validate x params of
        Some err \<Rightarrow>
          \<lparr>receiver = e, dispatched = [],
           returned = Inl (Errorf ''%s: %w: %s''
             [V (New edgeworkers_ErrDeactivateVersion), V (New edgeworkers_ErrStructValidation),
              M (Invalid err)])\<rparr>
      | None \<Rightarrow>
          (case url_Parse x (Sprintf ''/edgeworkers/v1/ids/%d/deactivations''
                  [D (EdgeWorkerDeactivateVersionRequest.EdgeWorkerID params)]) of
             Inl err \<Rightarrow>
               \<lparr>receiver = e, dispatched = [],
                returned = Inl (Errorf ''%w: failed to parse URL: %s''
                  [V (New edgeworkers_ErrDeactivateVersion), M err])\<rparr>
           | Inr uri \<Rightarrow>
               (case NewRequestWithContext x ''POST'' (url_String uri) of
                  Inl err \<Rightarrow>
                    \<lparr>receiver = e, dispatched = [],
                     returned = Inl (Errorf ''%w: failed to create request: %s''
                       [V (New edgeworkers_ErrDeactivateVersion), M err])\<rparr>
                | Inr req \<Rightarrow>
                    (case Exec (Session e) (Some req) Deactivation_zero [Body params] of
                       (Inl err, result) \<Rightarrow>
                         \<lparr>receiver = e, dispatched = [(Some req, [Body params])],
                          returned = Inl (Errorf ''%w: request failed: %s''
                            [V (New edgeworkers_ErrDeactivateVersion), M err])\<rparr>
                     | (Inr resp, result) \<Rightarrow>
                         if respStatusCode resp \<noteq> 201
                         then \<lparr>receiver = e, dispatched = [(Some req, [Body params])],
                               returned = Inl (Errorf ''%s: %w''
                                 [V (New edgeworkers_ErrDeactivateVersion),
                                  V (edgeworkers_Error x resp)])\<rparr>
                         else \<lparr>receiver = e, dispatched = [(Some req, [Body params])],
                               returned = Inr result\<rparr>))))"

text \<open>
  \<open>GetDeactivation\<close> assigns the error of \<open>http.NewRequestWithContext\<close> to \<open>err\<close> and
  overwrites it with the error of \<open>Exec\<close> without reading it. The request is nil when
  its construction failed, and \<open>Exec\<close> is called with it all the same.
\<close>

definition GetDeactivation ::
  "env \<Rightarrow> (unit, Deactivation) session edgeworkers \<Rightarrow> EdgeWorkerGetDeactivationRequest
     \<Rightarrow> ((unit, Deactivation) session edgeworkers, unit, Deactivation) outcome" where
  "GetDeactivation x e params =
     (case EdgeWorkerGetDeactivationRequest_Validate params of
        Some err \<Rightarrow>
          \<lparr>receiver = e, dispatched = [],
           returned = Inl (Errorf ''%s: %w: %s''
             [V (New edgeworkers_ErrGetDeactivation), V (New edgeworkers_ErrStructValidation),
              M (Invalid err)])\<rparr>
      | None \<Rightarrow>
          (case url_Parse x (Sprintf ''/edgeworkers/v1/ids/%d/deactivations/%d''
                  [D (EdgeWorkerGetDeactivationRequest.EdgeWorkerID params),
                   D (EdgeWorkerGetDeactivationRequest.DeactivationID params)]) of
             Inl err \<Rightarrow>
               \<lparr>receiver = e, dispatched = [],
                returned = Inl (Errorf ''%w: failed to parse URL: %s''
                  [V (New edgeworkers_ErrGetDeactivation), M err])\<rparr>
           | Inr uri \<Rightarrow>
               (let req = (case NewRequestWithContext x ''GET'' (url_String uri) of
                             Inl err \<Rightarrow> None
                           | Inr r \<Rightarrow> Some r) in
                case Exec (Session e) req Deactivation_zero [] of
                  (Inl err, result) \<Rightarrow>
                    \<lparr>receiver = e, dispatched = [(req, [])],
                     returned = Inl (Errorf ''%w: request failed: %s''
                       [V (New edgeworkers_ErrGetDeactivation), M err])\<rparr>
                | (Inr resp, result) \<Rightarrow>
                    if respStatusCode resp \<noteq> 200
                    then \<lparr>receiver = e, dispatched = [(req, [])],
                          returned = Inl (Errorf ''%s: %w''
                            [V (New edgeworkers_ErrGetDeactivation),
                             V (edgeworkers_Error x resp)])\<rparr>
                    else \<lparr>receiver = e, dispatched = [(req, [])],
                          returned = Inr result\<rparr>)))"

section \<open>Package cloudlets: policy properties\<close>

text \<open>\<open>OriginType\<close> and \<open>VersionActivationNetwork\<close> are string types; a Go map is a
  partial function; \<open>int64\<close> values are integers (none is computed with).\<close>

record CloudletsOrigin =
  OriginID :: string
  Hostname :: string
  Type :: string
  Checksum :: string
  Description :: string

record NetworkStatus =
  ActivatedBy :: string
  ActivationDate :: string
  Version :: int
  CloudletsOrigins :: "string \<rightharpoonup> CloudletsOrigin"
  ReferencedPolicies :: "string list"

record AssociateProperty =
  GroupID :: int
  ID :: int
  Name :: string
  NewestVersion :: NetworkStatus
  Production :: NetworkStatus
  Staging :: NetworkStatus

type_synonym GetPolicyPropertiesResponse = "string \<rightharpoonup> AssociateProperty"

record DeletePolicyPropertyRequest =
  PolicyID :: int
  PropertyID :: int
  Network :: string

record 's cloudlets =
  Session :: 's

definition DeletePolicyPropertyRequest_Validate :: "DeletePolicyPropertyRequest \<Rightarrow> verr option" where
  "DeletePolicyPropertyRequest_Validate r =
     Filter
       [(''PolicyID'', validation_Validate (PolicyID r) [Required IsEmpty_int]),
        (''PropertyID'', validation_Validate (PropertyID r) [Required IsEmpty_int])]"

definition GetPolicyProperties ::
  "env \<Rightarrow> (unit, GetPolicyPropertiesResponse) session cloudlets \<Rightarrow> int
     \<Rightarrow> ((unit, GetPolicyPropertiesResponse) session cloudlets, unit,
         GetPolicyPropertiesResponse) outcome" where
  "GetPolicyProperties x c policyID =
     (case url_Parse x (Sprintf ''/cloudlets/api/v2/policies/%d/properties'' [D policyID]) of
        Inl err \<Rightarrow>
          \<lparr>receiver = c, dispatched = [],
           returned = Inl (Errorf ''%w: failed to parse url: %s''
             [V (New cloudlets_ErrGetPolicyProperties), V err])\<rparr>
      | Inr uri \<Rightarrow>
          (case NewRequestWithContext x ''GET'' (url_String uri) of
             Inl err \<Rightarrow>
               \<lparr>receiver = c, dispatched = [],
                returned = Inl (Errorf ''%w: failed to create request: %s''
                  [V (New cloudlets_ErrGetPolicyProperties), V err])\<rparr>
           | Inr req \<Rightarrow>
               (case Exec (Session c) (Some req) Map.empty [] of
                  (Inl err, result) \<Rightarrow>
                    \<lparr>receiver = c, dispatched = [(Some req, [])],
                     returned = Inl (Errorf ''%w: request failed: %s''
                       [V (New cloudlets_ErrGetPolicyProperties), V err])\<rparr>
                | (Inr resp, result) \<Rightarrow>
                    if respStatusCode resp \<noteq> 200
                    then \<lparr>receiver = c, dispatched = [(Some req, [])],
                          returned = Inl (Errorf ''%s: %w''
                            [V (New cloudlets_ErrGetPolicyProperties), V (cloudlets_Error x resp)])\<rparr>
                    else \<lparr>receiver = c, dispatched = [(Some req, [])],
                          returned = Inr result\<rparr>)))"

text \<open>\<open>DeletePolicyProperty\<close> returns an error only, and gives \<open>Exec\<close> a nil target.\<close>

definition DeletePolicyProperty ::
  "env \<Rightarrow> (unit, unit) session cloudlets \<Rightarrow> DeletePolicyPropertyRequest
     \<Rightarrow> ((unit, unit) session cloudlets, unit, unit) outcome" where
  "DeletePolicyProperty x c params =
     (case DeletePolicyPropertyRequest_Validate params of
        Some err \<Rightarrow>
          \<lparr>receiver = c, dispatched = [],
           returned = Inl (Errorf ''%s: %w: %s''
             [V (New cloudlets_ErrDeletePolicyProperty), V (New cloudlets_ErrStructValidation),
              V (Invalid err)])\<rparr>
      | None \<Rightarrow>
          (case url_Parse x (Sprintf ''/cloudlets/api/v2/policies/%d/properties/%d''
                  [D (PolicyID params), D (PropertyID params)]) of
             Inl err \<Rightarrow>
               \<lparr>receiver = c, dispatched = [],
                returned = Inl (Errorf ''%w: failed to parse url: %s''
                  [V (New cloudlets_ErrDeletePolicyProperty), M err])\<rparr>
           | Inr uri0 \<Rightarrow>
               (let uri = (if DeletePolicyPropertyRequest.Network params \<noteq> []
                           then uri0\<lparr>RawQuery :=
                                  Encode x [(''network'', DeletePolicyPropertyRequest.Network params)]\<rparr>
                           else uri0) in
                case NewRequestWithContext x ''DELETE'' (url_String uri) of
                  Inl err \<Rightarrow>
                    \<lparr>receiver = c, dispatched = [],
                     returned = Inl (Errorf ''%w: failed to create request: %s''
                       [V (New cloudlets_ErrDeletePolicyProperty), V err])\<rparr>
                | Inr req \<Rightarrow>
                    (case Exec (Session c) (Some req) () [] of
                       (Inl err, u) \<Rightarrow>
                         \<lparr>receiver = c, dispatched = [(Some req, [])],
                          returned = Inl (Errorf ''%w: request failed: %s''
                            [V (New cloudlets_ErrDeletePolicyProperty), V err])\<rparr>
                     | (Inr resp, u) \<Rightarrow>
                         if respStatusCode resp \<noteq> 204
                         then \<lparr>receiver = c, dispatched = [(Some req, [])],
                               returned = Inl (Errorf ''%w: %d''
                                 [V (New cloudlets_ErrDeletePolicyProperty),
                                  A (D (respStatusCode resp))])\<rparr>
                         else \<lparr>receiver = c, dispatched = [(Some req, [])],
                               returned = Inr ()\<rparr>))))"

section \<open>Package papi: edge hostnames\<close>

text \<open>The client struct \<open>papi\<close> is declared in another file; the operations read its
  session and its flag \<open>usePrefixes\<close>.\<close>

record GetEdgeHostnamesRequest =
  ContractID :: string
  GroupID :: string
  Options :: "string list"

record GetEdgeHostnameRequest =
  EdgeHostnameID :: string
  ContractID :: string
  GroupID :: string
  Options :: "string list"

record UseCase =
  Option :: string
  Type :: string
  UseCase :: string

record EdgeHostnameGetItem =
  ID :: string
  Domain :: string
  ProductID :: string
  DomainPrefix :: string
  DomainSuffix :: string
  Status :: string
  Secure :: bool
  IPVersionBehavior :: string
  UseCases :: "UseCase list"

record EdgeHostnameItems =
  Items :: "EdgeHostnameGetItem list"

record GetEdgeHostnamesResponse =
  AccountID :: string
  ContractID :: string
  GroupID :: string
  EdgeHostnames :: EdgeHostnameItems

record EdgeHostnameCreate =
  ProductID :: string
  DomainPrefix :: string
  DomainSuffix :: string
  Secure :: bool
  SecureNetwork :: string
  SlotNumber :: int
  IPVersionBehavior :: string
  CertEnrollmentID :: int
  UseCases :: "UseCase list"

record CreateEdgeHostnameRequest =
  ContractID :: string
  GroupID :: string
  Options :: "string list"
  EdgeHostname :: EdgeHostnameCreate

record CreateEdgeHostnameResponse =
  EdgeHostnameLink :: string
  EdgeHostnameID :: string

record 's papi =
  Session :: 's
  usePrefixes :: bool

definition EHSecureNetworkStandardTLS :: string where
  "EHSecureNetworkStandardTLS = ''STANDARD_TLS''"

definition EHSecureNetworkSharedCert :: string where
  "EHSecureNetworkSharedCert = ''SHARED_CERT''"

definition EHSecureNetworkEnhancedTLS :: string where
  "EHSecureNetworkEnhancedTLS = ''ENHANCED_TLS''"

definition EHIPVersionV4 :: string where
  "EHIPVersionV4 = ''IPV4''"

definition EHIPVersionV6Compliance :: string where
  "EHIPVersionV6Compliance = ''IPV4''"

definition UseCaseGlobal :: string where
  "UseCaseGlobal = ''GLOBAL''"

text \<open>\<open>cast.ToString\<close> of a boolean.\<close>

definition ToString :: "bool \<Rightarrow> string" where
  "ToString b = (if b then ''true'' else ''false'')"

definition UseCase_Validate :: "UseCase \<Rightarrow> verr option" where
  "UseCase_Validate uc =
     Filter
       [(''Option'', validation_Validate (UseCase.Option uc) [Required IsEmpty_string]),
        (''Type'', validation_Validate (UseCase.Type uc)
           [Required IsEmpty_string, In IsEmpty_string [UseCaseGlobal]]),
        (''UseCase'', validation_Validate (UseCase.UseCase uc) [Required IsEmpty_string])]"

definition EdgeHostnameCreate_Validate :: "EdgeHostnameCreate \<Rightarrow> verr option" where
  "EdgeHostnameCreate_Validate eh =
     Filter
       [(''DomainPrefix'',
         validation_Validate (EdgeHostnameCreate.DomainPrefix eh) [Required IsEmpty_string]),
        (''DomainSuffix'',
         validation_Validate (EdgeHostnameCreate.DomainSuffix eh)
           [Required IsEmpty_string,
            When (SecureNetwork eh = EHSecureNetworkStandardTLS) [In IsEmpty_string [''edgesuite.net'']],
            When (SecureNetwork eh = EHSecureNetworkSharedCert) [In IsEmpty_string [''akamaized.net'']],
            When (SecureNetwork eh = EHSecureNetworkEnhancedTLS) [In IsEmpty_string [''edgekey.net'']]]),
        (''ProductID'',
         validation_Validate (EdgeHostnameCreate.ProductID eh) [Required IsEmpty_string]),
        (''CertEnrollmentID'',
         validation_Validate (CertEnrollmentID eh)
           [Required_When IsEmpty_int (SecureNetwork eh = EHSecureNetworkEnhancedTLS)]),
        (''IPVersionBehavior'',
         validation_Validate (EdgeHostnameCreate.IPVersionBehavior eh)
           [Required IsEmpty_string, In IsEmpty_string [EHIPVersionV4, EHIPVersionV6Compliance]]),
        (''SecureNetwork'',
         validation_Validate (SecureNetwork eh)
           [In IsEmpty_string
              [EHSecureNetworkStandardTLS, EHSecureNetworkSharedCert, EHSecureNetworkEnhancedTLS]]),
        (''UseCases'', validateSlice UseCase_Validate (EdgeHostnameCreate.UseCases eh))]"

definition CreateEdgeHostnameRequest_Validate :: "CreateEdgeHostnameRequest \<Rightarrow> verr option" where
  "CreateEdgeHostnameRequest_Validate eh =
     Filter
       [(''ContractID'',
         validation_Validate (CreateEdgeHostnameRequest.ContractID eh) [Required IsEmpty_string]),
        (''GroupID'',
         validation_Validate (CreateEdgeHostnameRequest.GroupID eh) [Required IsEmpty_string]),
        (''EdgeHostname'', EdgeHostnameCreate_Validate (EdgeHostname eh))]"

definition GetEdgeHostnamesRequest_Validate :: "GetEdgeHostnamesRequest \<Rightarrow> verr option" where
  "GetEdgeHostnamesRequest_Validate eh =
     Filter
       [(''ContractID'',
         validation_Validate (GetEdgeHostnamesRequest.ContractID eh) [Required IsEmpty_string]),
        (''GroupID'',
         validation_Validate (GetEdgeHostnamesRequest.GroupID eh) [Required IsEmpty_string])]"

definition GetEdgeHostnameRequest_Validate :: "GetEdgeHostnameRequest \<Rightarrow> verr option" where
  "GetEdgeHostnameRequest_Validate eh =
     Filter
       [(''EdgeHostnameID'',
         validation_Validate (GetEdgeHostnameRequest.EdgeHostnameID eh) [Required IsEmpty_string]),
        (''ContractID'',
         validation_Validate (GetEdgeHostnameRequest.ContractID eh) [Required IsEmpty_string]),
        (''GroupID'',
         validation_Validate (GetEdgeHostnameRequest.GroupID eh) [Required IsEmpty_string])]"

definition GetEdgeHostnamesResponse_zero :: GetEdgeHostnamesResponse where
  "GetEdgeHostnamesResponse_zero =
     \<lparr>AccountID = [], GetEdgeHostnamesResponse.ContractID = [],
      GetEdgeHostnamesResponse.GroupID = [], EdgeHostnames = \<lparr>Items = []\<rparr>\<rparr>"

definition GetEdgeHostnames ::
  "env \<Rightarrow> (unit, GetEdgeHostnamesResponse) session papi \<Rightarrow> GetEdgeHostnamesRequest
     \<Rightarrow> ((unit, GetEdgeHostnamesResponse) session papi, unit, GetEdgeHostnamesResponse) outcome" where
  "GetEdgeHostnames x p params =
     (case GetEdgeHostnamesRequest_Validate params of
        Some err \<Rightarrow>
          \<lparr>receiver = p, dispatched = [],
           returned = Inl (Errorf ''%w: %s'' [V (New papi_ErrStructValidation), M (Invalid err)])\<rparr>
      | None \<Rightarrow>
          (let getURL0 = Sprintf ''/papi/v1/edgehostnames?contractId=%s&groupId=%s''
                 [S (GetEdgeHostnamesRequest.ContractID params),
                  S (GetEdgeHostnamesRequest.GroupID params)];
               getURL = (if length (GetEdgeHostnamesRequest.Options params) > 0
                         then Sprintf ''%s&options=%s''
                                [S getURL0, S (join '','' (GetEdgeHostnamesRequest.Options params))]
                         else getURL0) in
           case NewRequestWithContext x ''GET'' getURL of
             Inl err \<Rightarrow>
               \<lparr>receiver = p, dispatched = [],
                returned = Inl (Errorf ''failed to create getedgehostnames request: %w'' [V err])\<rparr>
           | Inr req0 \<Rightarrow>
               (let req = Header_Set ''PAPI-Use-Prefixes'' (ToString (usePrefixes p)) req0 in
                case Exec (Session p) (Some req) GetEdgeHostnamesResponse_zero [] of
                  (Inl err, edgeHostnames) \<Rightarrow>
                    \<lparr>receiver = p, dispatched = [(Some req, [])],
                     returned = Inl (Errorf ''getedgehostnames request failed: %w'' [V err])\<rparr>
                | (Inr resp, edgeHostnames) \<Rightarrow>
                    if respStatusCode resp = 404
                    then \<lparr>receiver = p, dispatched = [(Some req, [])],
                          returned = Inl (Errorf ''%w: %s'' [V (New session_ErrNotFound), A (S getURL)])\<rparr>
                    else if respStatusCode resp \<noteq> 200
                    then \<lparr>receiver = p, dispatched = [(Some req, [])],
                          returned = Inl (NewAPIError x resp)\<rparr>
                    else \<lparr>receiver = p, dispatched = [(Some req, [])],
                          returned = Inr edgeHostnames\<rparr>)))"

definition GetEdgeHostname ::
  "env \<Rightarrow> (unit, GetEdgeHostnamesResponse) session papi \<Rightarrow> GetEdgeHostnameRequest
     \<Rightarrow> ((unit, GetEdgeHostnamesResponse) session papi, unit, GetEdgeHostnamesResponse) outcome" where
  "GetEdgeHostname x p params =
     (case GetEdgeHostnameRequest_Validate params of
        Some err \<Rightarrow>
          \<lparr>receiver = p, dispatched = [],
           returned = Inl (Errorf ''%w: %s'' [V (New papi_ErrStructValidation), M (Invalid err)])\<rparr>
      | None \<Rightarrow>
          (let getURL0 = Sprintf ''/papi/v1/edgehostnames/%s?contractId=%s&groupId=%s''
                 [S (GetEdgeHostnameRequest.EdgeHostnameID params),
                  S (GetEdgeHostnameRequest.ContractID params),
                  S (GetEdgeHostnameRequest.GroupID params)];
               getURL = (if length (GetEdgeHostnameRequest.Options params) > 0
                         then Sprintf ''%s&options=%s''
                                [S getURL0, S (join '','' (GetEdgeHostnameRequest.Options params))]
                         else getURL0) in
           case NewRequestWithContext x ''GET'' getURL of
             Inl err \<Rightarrow>
               \<lparr>receiver = p, dispatched = [],
                returned = Inl (Errorf ''failed to create getedgehostname request: %w'' [V err])\<rparr>
           | Inr req0 \<Rightarrow>
               (let req = Header_Set ''PAPI-Use-Prefixes'' (ToString (usePrefixes p)) req0 in
                case Exec (Session p) (Some req) GetEdgeHostnamesResponse_zero [] of
                  (Inl err, edgeHostname) \<Rightarrow>
                    \<lparr>receiver = p, dispatched = [(Some req, [])],
                     returned = Inl (Errorf ''getedgehostname request failed: %w'' [V err])\<rparr>
                | (Inr resp, edgeHostname) \<Rightarrow>
                    if respStatusCode resp = 404
                    then \<lparr>receiver = p, dispatched = [(Some req, [])],
                          returned = Inl (Errorf ''%w: %s'' [V (New session_ErrNotFound), A (S getURL)])\<rparr>
                    else if respStatusCode resp \<noteq> 200
                    then \<lparr>receiver = p, dispatched = [(Some req, [])],
                          returned = Inl (NewAPIError x resp)\<rparr>
                    else \<lparr>receiver = p, dispatched = [(Some req, [])],
                          returned = Inr edgeHostname\<rparr>)))"

definition CreateEdgeHostname ::
  "env \<Rightarrow> (EdgeHostnameCreate, CreateEdgeHostnameResponse) session papi
     \<Rightarrow> CreateEdgeHostnameRequest
     \<Rightarrow> ((EdgeHostnameCreate, CreateEdgeHostnameResponse) session papi, EdgeHostnameCreate,
         CreateEdgeHostnameResponse) outcome" where
  "CreateEdgeHostname x p r =
     (case CreateEdgeHostnameRequest_Validate r of
        Some err \<Rightarrow>
          \<lparr>receiver = p, dispatched = [],
           returned = Inl (Errorf ''%w: %s'' [V (New papi_ErrStructValidation), M (Invalid err)])\<rparr>
      | None \<Rightarrow>
          (let createURL0 = Sprintf ''/papi/v1/edgehostnames?contractId=%s&groupId=%s''
                 [S (CreateEdgeHostnameRequest.ContractID r),
                  S (CreateEdgeHostnameRequest.GroupID r)];
               createURL = (if length (CreateEdgeHostnameRequest.Options r) > 0
                            then Sprintf ''%s&options=%s''
                                   [S createURL0, S (join '','' (CreateEdgeHostnameRequest.Options r))]
                            else createURL0) in
           case NewRequestWithContext x ''POST'' createURL of
             Inl err \<Rightarrow>
               \<lparr>receiver = p, dispatched = [],
                returned = Inl (Errorf ''failed to create createedgehostname request: %w'' [V err])\<rparr>
           | Inr req0 \<Rightarrow>
               (let req = Header_Set ''PAPI-Use-Prefixes'' (ToString (usePrefixes p)) req0 in
                case Exec (Session p) (Some req) \<lparr>EdgeHostnameLink = [], EdgeHostnameID = []\<rparr>
                       [EdgeHostname r] of
                  (Inl err, createResponse) \<Rightarrow>
                    \<lparr>receiver = p, dispatched = [(Some req, [EdgeHostname r])],
                     returned = Inl (Errorf ''createedgehostname request failed: %w'' [V err])\<rparr>
                | (Inr resp, createResponse) \<Rightarrow>
                    if respStatusCode resp \<noteq> 201
                    then \<lparr>receiver = p, dispatched = [(Some req, [EdgeHostname r])],
                          returned = Inl (NewAPIError x resp)\<rparr>
                    else
                      (case FetchIDFromLocation x (EdgeHostnameLink createResponse) of
                         Inl err \<Rightarrow>
                           \<lparr>receiver = p, dispatched = [(Some req, [EdgeHostname r])],
                            returned = Inl (Errorf ''%w: %s'' [V (New tools_ErrInvalidLocation), M err])\<rparr>
                       | Inr id' \<Rightarrow>
                           \<lparr>receiver = p, dispatched = [(Some req, [EdgeHostname r])],
                            returned = Inr (createResponse\<lparr>EdgeHostnameID := id'\<rparr>)\<rparr>))))"

section \<open>Client constructors (networklists, cps, datastream)\<close>

text \<open>
  An \<open>Option\<close> is a function on a pointer to the client: it may assign the fields. The
  constructor builds the struct around the session and runs the options in order.
\<close>

record 's networklists =
  Session :: 's
  usePrefixes :: bool

record 's cps =
  Session :: 's

record 's ds =
  Session :: 's

definition networklists_Client ::
  "'s \<Rightarrow> ('s networklists \<Rightarrow> 's networklists) list \<Rightarrow> 's networklists" where
  "networklists_Client sess opts =
     foldl (\<lambda>p opt. opt p) \<lparr>networklists.Session = sess, networklists.usePrefixes = False\<rparr> opts"

definition cps_Client :: "'s \<Rightarrow> ('s cps \<Rightarrow> 's cps) list \<Rightarrow> 's cps" where
  "cps_Client sess opts = foldl (\<lambda>c opt. opt c) \<lparr>cps.Session = sess\<rparr> opts"

definition datastream_Client :: "'s \<Rightarrow> ('s ds \<Rightarrow> 's ds) list \<Rightarrow> 's ds" where
  "datastream_Client sess opts = foldl (\<lambda>c opt. opt c) \<lparr>ds.Session = sess\<rparr> opts"

section \<open>Concrete collaborators for the examples\<close>

text \<open>
  The examples below run the operations against a small fixed world. Its JSON decoder
  knows two bodies: the text \<open>test\<close>, which is not JSON, and one problem-details
  object; \<open>FetchIDFromLocation\<close> knows one location that does not parse and one that
  does. Nothing is escaped in a query, and every request can be constructed.
\<close>

definition problem_body :: string where
  \<open>problem_body =
     ''{"type":"internal_error","title":"Internal Server Error","detail":"Error fetching","status":500}''\<close>

definition sample_Unmarshal :: "string \<Rightarrow> Error \<Rightarrow> Error \<times> string option" where
  "sample_Unmarshal b e =
     (if b = problem_body
      then (e\<lparr>Error.Type := ''internal_error'', Title := ''Internal Server Error'',
               Detail := ''Error fetching''\<rparr>, None)
      else (e, Some ''invalid character 'e' in literal true (expecting 'r')''))"

definition sample_FetchID :: "string \<Rightarrow> goerr + string" where
  "sample_FetchID loc =
     (if loc = ''/papi/v1/edgehostnames/ehn_1234'' then Inr ''ehn_1234''
      else Inl (External ''invalid URL escape''))"

definition sample_env :: env where
  "sample_env =
     \<lparr>NewRequestErr = (\<lambda>m u. None),
      ParseErr = (\<lambda>u. None),
      QueryEscape = (\<lambda>s. s),
      Unmarshal = sample_Unmarshal,
      versionHeader = (\<lambda>m. [(''Accept'', ''application/vnd.config-gtm.v1.4+json'')]),
      ActivationNetworkStaging = ''STAGING'',
      ActivationNetworkProduction = ''PRODUCTION'',
      edgeworkers_Error = (\<lambda>r. External ''API error''),
      cloudlets_Error = (\<lambda>r. External ''API error''),
      NewAPIError = (\<lambda>r. External ''API error''),
      FetchIDFromLocation = sample_FetchID\<rparr>"

text \<open>A session that answers every request with one response and one decoded value,
  and a session whose transport fails.\<close>

definition answer :: "response \<Rightarrow> 'a \<Rightarrow> ('b, 'a) session" where
  "answer resp v = \<lparr>Exec = (\<lambda>rq t b. (Inr resp, v))\<rparr>"

definition refuse :: "goerr \<Rightarrow> ('b, 'a) session" where
  "refuse err = \<lparr>Exec = (\<lambda>rq t b. (Inl err, t))\<rparr>"






section \<open>The error contract of package gtm\<close>










lemma gtm_Error_StatusCode: "StatusCode (gtm_Error x r) = respStatusCode r"
  by (simp add: gtm_Error_def split: body.splits prod.splits option.splits)

text \<open>
  Claim C6, as the code has it. The error mapper of gtm returns a typed error whose
  status code is the status code of the response in every case. When the body is read
  but \<open>json.Unmarshal\<close> fails, the title is the fixed text \<open>Failed to unmarshal error body\<close>
  and the detail is the message of the decoder; when the body decodes, the decoded
  fields are kept; when the body cannot be read, the title is the fixed text \<open>Failed to
  read error body\<close> and the detail is the message of the read error.
\<close>

theorem gtm_Error_fallback:
  "StatusCode (gtm_Error x r) = respStatusCode r
   \<and> (respBody r = Bytes b \<and> Unmarshal x b Error_zero = (e, Some msg) \<longrightarrow>
        gtm_Error x r = e\<lparr>Title := ''Failed to unmarshal error body'', Detail := msg,
                          StatusCode := respStatusCode r\<rparr>)
   \<and> (respBody r = Bytes b \<and> Unmarshal x b Error_zero = (e, None) \<longrightarrow>
        gtm_Error x r = e\<lparr>StatusCode := respStatusCode r\<rparr>)
   \<and> (respBody r = ReadError msg \<longrightarrow>
        gtm_Error x r = Error_zero\<lparr>StatusCode := respStatusCode r,
                          Title := ''Failed to read error body'', Detail := msg\<rparr>)"
  by (simp add: gtm_Error_StatusCode) (simp add: gtm_Error_def)

theorem gtm_Error_fallback_witness:
  "gtm_Error sample_env \<lparr>respStatusCode = 500, respBody = Bytes ''test''\<rparr> =
     Error_zero\<lparr>Title := ''Failed to unmarshal error body'',
                 Detail := ''invalid character 'e' in literal true (expecting 'r')'',
                 StatusCode := 500\<rparr>
   \<and> gtm_Error sample_env \<lparr>respStatusCode = 500, respBody = Bytes problem_body\<rparr> =
     Error_zero\<lparr>Error.Type := ''internal_error'', Title := ''Internal Server Error'',
                 Detail := ''Error fetching'', StatusCode := 500\<rparr>
   \<and> gtm_Error sample_env \<lparr>respStatusCode = 502, respBody = ReadError ''unexpected EOF''\<rparr> =
     Error_zero\<lparr>StatusCode := 502, Title := ''Failed to read error body'',
                 Detail := ''unexpected EOF''\<rparr>"
  using gtm_Error_fallback [of sample_env "\<lparr>respStatusCode = 500, respBody = Bytes ''test''\<rparr>"
      "''test''" Error_zero "''invalid character 'e' in literal true (expecting 'r')''"]
    gtm_Error_fallback [of sample_env "\<lparr>respStatusCode = 500, respBody = Bytes problem_body\<rparr>"
      problem_body "Error_zero\<lparr>Error.Type := ''internal_error'', Title := ''Internal Server Error'',
                 Detail := ''Error fetching''\<rparr>" "[]"]
    gtm_Error_fallback [of sample_env "\<lparr>respStatusCode = 502, respBody = ReadError ''unexpected EOF''\<rparr>"
      "[]" Error_zero "''unexpected EOF''"]
  by (simp add: sample_env_def sample_Unmarshal_def problem_body_def)

text \<open>
  Against C6 as stated: for the body \<open>test\<close> and status 500 neither the title nor the
  detail of the mapped error is the raw body text.
\<close>

theorem gtm_Error_raw_body_counterexample:
  "Title (gtm_Error sample_env \<lparr>respStatusCode = 500, respBody = Bytes ''test''\<rparr>)
     = ''Failed to unmarshal error body''
   \<and> Detail (gtm_Error sample_env \<lparr>respStatusCode = 500, respBody = Bytes ''test''\<rparr>)
     = ''invalid character 'e' in literal true (expecting 'r')''
   \<and> Title (gtm_Error sample_env \<lparr>respStatusCode = 500, respBody = Bytes ''test''\<rparr>) \<noteq> ''test''
   \<and> Detail (gtm_Error sample_env \<lparr>respStatusCode = 500, respBody = Bytes ''test''\<rparr>) \<noteq> ''test''"
  by (simp add: gtm_Error_def sample_env_def sample_Unmarshal_def problem_body_def)

end
